theory Spec2Isabelle
  imports Complex_Main
begin

section \<open>Data model of the purchase processor\<close>

text \<open>
  The embedding follows \<^verbatim>\<open>src/resources/purchase/processor.ts\<close>, class
  \<^verbatim>\<open>PurchaseProcessor\<close>. The two tables the processor touches are lists of rows;
  identifiers are natural numbers, and a price is the JavaScript number that
  \<^verbatim>\<open>Number(record.price)\<close> gives. A method returns its result, or the error it
  throws, together with the tables as they are afterwards.
\<close>

section \<open>Numbers of the JavaScript runtime\<close>

text \<open>
  A JavaScript number is a binary64 value: \<open>Num x\<close> is the finite value \<open>x\<close>, and
  the other three are the infinities and \<^verbatim>\<open>NaN\<close>. The sign of zero, which no
  operation of the processor observes, is left out. \<open>round64\<close> rounds a real number to
  the nearest binary64 value, ties to the even significand: 53 significant bits, the
  least unit \<open>2\<close> to the \<open>- 1074\<close>, overflow from \<open>2\<close> to the \<open>1024\<close>. \<open>fadd\<close>
  is the operator \<^verbatim>\<open>+\<close> on two numbers. \<open>ilog2 n\<close> is the position of the highest
  bit of \<open>n\<close> and \<open>expo x\<close> the binary exponent of a positive \<open>x\<close>.
\<close>

datatype number = Num real | PosInfinity | NegInfinity | NaN

fun ilog2 :: "nat \<Rightarrow> nat" where
  "ilog2 n = (if n < 2 then 0 else Suc (ilog2 (n div 2)))"

declare ilog2.simps [simp del]

definition pow2 :: "int \<Rightarrow> real" where
  "pow2 k = (if 0 \<le> k then 2 ^ nat k else 1 / 2 ^ nat (- k))"

definition expo :: "real \<Rightarrow> int" where
  "expo x =
     (if 1 \<le> x then int (ilog2 (nat \<lfloor>x\<rfloor>))
      else - int (Suc (ilog2 (nat (\<lceil>1 / x\<rceil> - 1)))))"

definition roundEven :: "real \<Rightarrow> int" where
  "roundEven r =
     (let f = \<lfloor>r\<rfloor>; d = r - of_int f
      in if d < 1 / 2 then f else if 1 / 2 < d then f + 1 else if even f then f else f + 1)"

definition round64 :: "real \<Rightarrow> number" where
  "round64 x =
     (if x = 0 then Num 0
      else
        (let k = max (expo \<bar>x\<bar> - 52) (- 1074);
             r = of_int (roundEven (\<bar>x\<bar> / pow2 k)) * pow2 k
         in if 2 ^ 1024 \<le> r then (if 0 < x then PosInfinity else NegInfinity)
            else Num (if 0 < x then r else - r)))"

fun fadd :: "number \<Rightarrow> number \<Rightarrow> number" where
  "fadd (Num a) (Num b) = round64 (a + b)"
| "fadd NaN y = NaN"
| "fadd x NaN = NaN"
| "fadd PosInfinity NegInfinity = NaN"
| "fadd NegInfinity PosInfinity = NaN"
| "fadd PosInfinity y = PosInfinity"
| "fadd x PosInfinity = PosInfinity"
| "fadd NegInfinity y = NegInfinity"
| "fadd x NegInfinity = NegInfinity"

section \<open>Rows and resources\<close>

datatype error =
    NotFound
  | Conflict
  | AccessDenied
  | TypeError
  | GatewayError string

datatype purchase_status = Unpaid | Paid

datatype ticket_status = Available | Booked

text \<open>The columns of a row of \<^verbatim>\<open>Purchases\<close> other than \<^verbatim>\<open>id\<close>.\<close>

record purchase_attributes =
  dateCreated :: string
  status :: purchase_status
  amountBilled :: number
  externalId :: string

record purchase_row =
  row_id :: nat
  columns :: purchase_attributes

record ticket_row =
  ticket_id :: nat
  price :: number
  ticketTypeId :: nat
  ticket_state :: ticket_status
  purchaseId :: "nat option"

text \<open>The resource object \<^verbatim>\<open>{ id, type, attributes, relationships }\<close>.\<close>

record Purchase =
  res_id :: nat
  res_type :: string
  attributes :: purchase_attributes
  relationships :: "(string \<times> nat list) list"

record db =
  Purchases :: "purchase_row list"
  Tickets :: "ticket_row list"

type_synonym 'a outcome = "(error + 'a) \<times> db"

section \<open>Reading, paying and removing a purchase\<close>

text \<open>\<^verbatim>\<open>removeById\<close>: \<^verbatim>\<open>knex("Purchases").where({ id }).delete()\<close>.\<close>

definition removeById :: "nat \<Rightarrow> db \<Rightarrow> unit outcome" where
  "removeById i s =
     (Inr (), s\<lparr>Purchases := filter (\<lambda>r. row_id r \<noteq> i) (Purchases s)\<rparr>)"

text \<open>
  \<^verbatim>\<open>asResource\<close> receives what \<^verbatim>\<open>.first()\<close> gave: a row, or \<^verbatim>\<open>undefined\<close>
  (\<open>None\<close>). Spreading \<^verbatim>\<open>undefined\<close> into an object is allowed, but the read
  \<^verbatim>\<open>purchaseObject.id\<close> on line 204 then throws a \<^verbatim>\<open>TypeError\<close>. A row has no
  column named \<^verbatim>\<open>attributes\<close>, so the attributes are the row without its id.
\<close>

definition asResource :: "purchase_row option \<Rightarrow> error + Purchase" where
  "asResource purchaseObject =
     (case purchaseObject of
        None \<Rightarrow> Inl TypeError
      | Some r \<Rightarrow>
          Inr \<lparr>res_id = row_id r, res_type = ''purchase'',
               attributes = columns r, relationships = []\<rparr>)"

text \<open>\<^verbatim>\<open>getById\<close>: the first row with that id, as a resource.\<close>

definition getById :: "nat \<Rightarrow> db \<Rightarrow> Purchase outcome" where
  "getById i s = (asResource (find (\<lambda>r. row_id r = i) (Purchases s)), s)"

text \<open>\<^verbatim>\<open>markAsPaid\<close>: \<^verbatim>\<open>knex("Purchases").where({ id }).update({ status: "paid" })\<close>.\<close>

definition pay :: "purchase_row \<Rightarrow> purchase_row" where
  "pay r = r\<lparr>columns := (columns r)\<lparr>status := Paid\<rparr>\<rparr>"

definition markAsPaid :: "nat \<Rightarrow> db \<Rightarrow> unit outcome" where
  "markAsPaid i s =
     (Inr (), s\<lparr>Purchases := map (\<lambda>r. if row_id r = i then pay r else r) (Purchases s)\<rparr>)"

text \<open>\<^verbatim>\<open>delete\<close>: \<^verbatim>\<open>throw JsonApiErrors.AccessDenied()\<close>.\<close>

definition delete :: "db \<Rightarrow> unit outcome" where
  "delete s = (Inl AccessDenied, s)"

text \<open>The status stored for an order id, read as \<^verbatim>\<open>getById\<close> reads it.\<close>

definition statusOf :: "db \<Rightarrow> nat \<Rightarrow> purchase_status option" where
  "statusOf s i = map_option (status \<circ> columns) (find (\<lambda>r. row_id r = i) (Purchases s))"

section \<open>Strings and dates of the JavaScript runtime\<close>

text \<open>Decimal rendering of a number inside a template literal.\<close>

fun showNat :: "nat \<Rightarrow> string" where
  "showNat n =
     (if n < 10 then [''0123456789'' ! n]
      else showNat (n div 10) @ [''0123456789'' ! (n mod 10)])"

declare showNat.simps [simp del]

definition pad :: "nat \<Rightarrow> nat \<Rightarrow> string" where
  "pad w n = replicate (w - length (showNat n)) CHR ''0'' @ showNat n"

text \<open>A value interpolated into a template literal; \<^verbatim>\<open>undefined\<close> prints its name.\<close>

definition interpolate :: "string option \<Rightarrow> string" where
  "interpolate v = (case v of None \<Rightarrow> ''undefined'' | Some x \<Rightarrow> x)"

text \<open>\<^verbatim>\<open>Array.prototype.join\<close> and \<^verbatim>\<open>String.prototype.split\<close> on one character.\<close>

fun join :: "string \<Rightarrow> string list \<Rightarrow> string" where
  "join sep [] = []"
| "join sep [x] = x"
| "join sep (x # y # ys) = x @ sep @ join sep (y # ys)"

fun split :: "char \<Rightarrow> string \<Rightarrow> string list" where
  "split c [] = [[]]"
| "split c (x # xs) =
     (if x = c then [] # split c xs
      else (case split c xs of [] \<Rightarrow> [[x]] | y # ys \<Rightarrow> (x # y) # ys))"

text \<open>
  \<^verbatim>\<open>Date.prototype.toJSON\<close> of a time value, in milliseconds since the epoch, read
  from the clock: \<^verbatim>\<open>YYYY-MM-DDTHH:mm:ss.sssZ\<close> in UTC (years after 9999 print
  as \<^verbatim>\<open>+YYYYYY\<close>). \<open>civil\<close> turns a day number into year, month and day of the
  proleptic Gregorian calendar.
\<close>

definition civil :: "nat \<Rightarrow> nat \<times> nat \<times> nat" where
  "civil z =
     (let z' = z + 719468;
          era = z' div 146097;
          doe = z' mod 146097;
          yoe = (doe - doe div 1460 + doe div 36524 - doe div 146096) div 365;
          y = yoe + era * 400;
          doy = doe - (365 * yoe + yoe div 4 - yoe div 100);
          mp = (5 * doy + 2) div 153;
          d = doy - (153 * mp + 2) div 5 + 1;
          m = (if mp < 10 then mp + 3 else mp - 9)
      in (if m \<le> 2 then y + 1 else y, m, d))"

definition toJSON :: "nat \<Rightarrow> string" where
  "toJSON t =
     (let secs = t div 1000;
          (y, m, d) = civil (secs div 86400)
      in (if y \<le> 9999 then pad 4 y else ''+'' @ pad 6 y) @ ''-'' @ pad 2 m @ ''-'' @ pad 2 d
         @ ''T'' @ pad 2 (secs div 3600 mod 24) @ '':'' @ pad 2 (secs div 60 mod 60)
         @ '':'' @ pad 2 (secs mod 60) @ ''.'' @ pad 3 (t mod 1000) @ ''Z'')"

section \<open>Collecting the tickets\<close>

text \<open>
  \<^verbatim>\<open>getTickets\<close> receives the identifiers of the request's ticket relationships.
  The records are the rows whose id is among them, the total is the \<^verbatim>\<open>reduce\<close> of
  line 83 and the quantities are the \<^verbatim>\<open>reduce\<close> of lines 87 to 90, whose step
  returns the object \<^verbatim>\<open>{ [type]: (accumulator[type] || 0) + 1 }\<close>.
\<close>

definition countStep :: "(nat \<rightharpoonup> nat) \<Rightarrow> nat \<Rightarrow> (nat \<rightharpoonup> nat)" where
  "countStep accumulator type =
     [type \<mapsto> (case accumulator type of None \<Rightarrow> 0 | Some n \<Rightarrow> n) + 1]"

definition quantitiesOf :: "ticket_row list \<Rightarrow> (nat \<rightharpoonup> nat)" where
  "quantitiesOf ticketRecords = foldl countStep Map.empty (map ticketTypeId ticketRecords)"

definition totalOf :: "ticket_row list \<Rightarrow> number" where
  "totalOf ticketRecords =
     foldl (\<lambda>priceSum p. fadd priceSum p) (Num 0) (map price ticketRecords)"

record selection =
  totalPrice :: number
  tickets :: "ticket_row list"
  quantitiesByType :: "nat \<rightharpoonup> nat"

definition getTickets :: "nat list \<Rightarrow> db \<Rightarrow> selection" where
  "getTickets ids s =
     (let ticketRecords = filter (\<lambda>t. ticket_id t \<in> set ids) (Tickets s)
      in \<lparr>totalPrice = totalOf ticketRecords,
          tickets = ticketRecords,
          quantitiesByType = quantitiesOf ticketRecords\<rparr>)"

text \<open>
  For stating what an order bills: the price stored for a ticket id, the real value
  of a finite number, and the numbers that are integers.
\<close>

definition priceOf :: "db \<Rightarrow> nat \<Rightarrow> number" where
  "priceOf s i =
     (case find (\<lambda>t. ticket_id t = i) (Tickets s) of None \<Rightarrow> Num 0 | Some t \<Rightarrow> price t)"

definition valueOf :: "number \<Rightarrow> real" where
  "valueOf v = (case v of Num x \<Rightarrow> x | _ \<Rightarrow> 0)"

definition wholeNumber :: "number \<Rightarrow> bool" where
  "wholeNumber v = (case v of Num x \<Rightarrow> x = of_int \<lfloor>x\<rfloor> | _ \<Rightarrow> False)"

section \<open>Building and posting the preference\<close>

text \<open>The variables read from \<^verbatim>\<open>process.env\<close>; an unset variable is \<open>None\<close>.\<close>

record env =
  WEBCONF_CHECKOUT_URL :: "string option"
  MP_BACK_URL_SUCCESS :: "string option"
  MP_BACK_URL_PENDING :: "string option"
  MP_BACK_URL_FAILURE :: "string option"
  USE_FAKE_PAYMENTS :: "string option"
  MP_TICKET_PICTURE_URL :: "string option"
  MP_EXCLUDED_PAYMENT_TYPES :: "string option"

text \<open>
  The clock is read three times while an order is created: \<^verbatim>\<open>Date.now()\<close> on
  line 129, \<^verbatim>\<open>new Date()\<close> on line 169 and \<^verbatim>\<open>new Date()\<close> on line 30.
\<close>

record clock =
  now_tomorrow :: nat
  now_from :: nat
  now_created :: nat

record line_item =
  item_id :: string
  title :: string
  quantity :: "nat option"
  currency_id :: string
  unit_price :: number
  picture_url :: "string option"
  category_id :: string

record preference =
  items :: "line_item list"
  excluded_payment_types :: "string list"
  back_url_success :: string
  back_url_failure :: string
  back_url_pending :: string
  auto_return :: string
  external_reference :: string
  expires :: bool
  expiration_date_from :: string
  expiration_date_to :: string

definition truthy :: "string option \<Rightarrow> bool" where
  "truthy v = (case v of None \<Rightarrow> False | Some x \<Rightarrow> x \<noteq> [])"

definition TOMORROW :: "nat \<Rightarrow> nat" where
  "TOMORROW now = now + 60 * 60 * 60 * 24 * 1000"

definition titles :: "nat option \<Rightarrow> string option" where
  "titles k =
     (if k = Some 1 then Some ''Entrada''
      else if k = Some 2 then Some ''Par de Entradas''
      else if k = Some 3 then Some (''Tr'' @ [CHR 0xED] @ ''o de Entradas'')
      else None)"

definition lineItem :: "env \<Rightarrow> (nat \<rightharpoonup> nat) \<Rightarrow> ticket_row \<Rightarrow> line_item" where
  "lineItem e quantities ticket =
     (let q = quantities (ticketTypeId ticket)
      in \<lparr>item_id = ''WEBCONF-TICKET-'' @ interpolate (map_option showNat q),
          title = interpolate (titles q) @ '' para C'' @ [CHR 0xF3] @ ''rdoba WebConf 2019'',
          quantity = q,
          currency_id = ''ARS'',
          unit_price = (if truthy (USE_FAKE_PAYMENTS e) then Num 2 else price ticket),
          picture_url = MP_TICKET_PICTURE_URL e,
          category_id = ''tickets''\<rparr>)"

definition preferenceConfiguration ::
  "env \<Rightarrow> clock \<Rightarrow> ticket_row list \<Rightarrow> (nat \<rightharpoonup> nat) \<Rightarrow> preference" where
  "preferenceConfiguration e clk ts quantities =
     \<lparr>items = map (lineItem e quantities) ts,
      excluded_payment_types =
        split CHR '','' (case MP_EXCLUDED_PAYMENT_TYPES e of None \<Rightarrow> [] | Some x \<Rightarrow> x),
      back_url_success =
        interpolate (WEBCONF_CHECKOUT_URL e) @ ''/'' @ interpolate (MP_BACK_URL_SUCCESS e),
      back_url_failure =
        interpolate (WEBCONF_CHECKOUT_URL e) @ ''/'' @ interpolate (MP_BACK_URL_FAILURE e),
      back_url_pending =
        interpolate (WEBCONF_CHECKOUT_URL e) @ ''/'' @ interpolate (MP_BACK_URL_PENDING e),
      auto_return = ''approved'',
      external_reference = join ''|'' (map (showNat \<circ> ticket_id) ts),
      expires = True,
      expiration_date_from = take 23 (toJSON (now_from clk)) @ ''-03:00'',
      expiration_date_to = take 23 (toJSON (TOMORROW (now_tomorrow clk))) @ ''-03:00''\<rparr>"

text \<open>
  The payment gateway \<^verbatim>\<open>MercadoPago.preferences.create\<close> is a parameter: it answers
  a request with the reason of its rejection or with a response carrying the id of the
  preference. A rejection leaves \<^verbatim>\<open>postPreference\<close> as the exception it is.
\<close>

record mp_response =
  pref_id :: string

type_synonym gateway = "preference \<Rightarrow> string + mp_response"

definition postPreference ::
  "gateway \<Rightarrow> env \<Rightarrow> clock \<Rightarrow> ticket_row list \<Rightarrow> (nat \<rightharpoonup> nat) \<Rightarrow> error + mp_response" where
  "postPreference gw e clk ts quantities =
     (case gw (preferenceConfiguration e clk ts quantities) of
        Inl reason \<Rightarrow> Inl (GatewayError reason)
      | Inr response \<Rightarrow> Inr response)"

section \<open>Creating an order\<close>

text \<open>
  Modelled from the spec: \<^verbatim>\<open>super.add\<close> is \<^verbatim>\<open>KnexProcessor.add\<close> of the JSON:API
  library, which is not among the sources. It inserts the attributes as a new row of
  \<^verbatim>\<open>Purchases\<close>, whose id the storage generates on insert (here one more than the
  largest id in use), and returns the stored record as a resource.
\<close>

definition nextId :: "purchase_row list \<Rightarrow> nat" where
  "nextId rs = Suc (foldr max (map row_id rs) 0)"

definition super_add :: "purchase_attributes \<Rightarrow> db \<Rightarrow> Purchase \<times> db" where
  "super_add a s =
     (let i = nextId (Purchases s)
      in (\<lparr>res_id = i, res_type = ''purchase'', attributes = a, relationships = []\<rparr>,
          s\<lparr>Purchases := Purchases s @ [\<lparr>row_id = i, columns = a\<rparr>]\<rparr>))"

definition book :: "nat \<Rightarrow> ticket_row \<Rightarrow> ticket_row" where
  "book i t = t\<lparr>purchaseId := Some i, ticket_state := Booked\<rparr>"

definition bindTicketsToPurchase :: "ticket_row list \<Rightarrow> Purchase \<Rightarrow> db \<Rightarrow> db" where
  "bindTicketsToPurchase ts purchase s =
     s\<lparr>Tickets :=
         map (\<lambda>t. if ticket_id t \<in> set (map ticket_id ts) then book (res_id purchase) t else t)
           (Tickets s)\<rparr>"

definition add :: "gateway \<Rightarrow> env \<Rightarrow> clock \<Rightarrow> nat list \<Rightarrow> db \<Rightarrow> Purchase outcome" where
  "add gw e clk ids s =
     (let sel = getTickets ids s
      in case postPreference gw e clk (tickets sel) (quantitiesByType sel) of
           Inl err \<Rightarrow> (Inl err, s)
         | Inr preference \<Rightarrow>
             (let (purchase, s') =
                    super_add \<lparr>dateCreated = toJSON (now_created clk), status = Unpaid,
                               amountBilled = totalPrice sel,
                               externalId = pref_id preference\<rparr> s
              in (Inr purchase, bindTicketsToPurchase (tickets sel) purchase s')))"

text \<open>
  For stating that \<open>add\<close> does not read the status of a ticket: the tables with the
  status of every ticket replaced.
\<close>

definition restate :: "(ticket_row \<Rightarrow> ticket_status) \<Rightarrow> db \<Rightarrow> db" where
  "restate f s = s\<lparr>Tickets := map (\<lambda>t. t\<lparr>ticket_state := f t\<rparr>) (Tickets s)\<rparr>"

section \<open>The operations as steps on the tables\<close>

datatype operation =
    Add "nat list"
  | RemoveById nat
  | GetById nat
  | MarkAsPaid nat
  | Delete

fun after :: "gateway \<Rightarrow> env \<Rightarrow> clock \<Rightarrow> operation \<Rightarrow> db \<Rightarrow> db" where
  "after gw e clk (Add ids) s = snd (add gw e clk ids s)"
| "after gw e clk (RemoveById i) s = snd (removeById i s)"
| "after gw e clk (GetById i) s = snd (getById i s)"
| "after gw e clk (MarkAsPaid i) s = snd (markAsPaid i s)"
| "after gw e clk Delete s = snd (delete s)"

section \<open>Sample data\<close>

definition ticketA :: ticket_row where
  "ticketA = \<lparr>ticket_id = 1, price = Num 100, ticketTypeId = 1,
              ticket_state = Available, purchaseId = None\<rparr>"

definition ticketB :: ticket_row where
  "ticketB = \<lparr>ticket_id = 2, price = Num 100, ticketTypeId = 1,
              ticket_state = Available, purchaseId = None\<rparr>"

definition ticketC :: ticket_row where
  "ticketC = \<lparr>ticket_id = 3, price = Num 180, ticketTypeId = 2,
              ticket_state = Booked, purchaseId = Some 2\<rparr>"

text \<open>
  Tickets whose prices do not add exactly: \<open>2\<close> to the \<open>53\<close> and \<open>1\<close>, and the
  binary64 values nearest to \<open>0.1\<close> and \<open>0.2\<close>.
\<close>

definition ticketD :: ticket_row where
  "ticketD = \<lparr>ticket_id = 4, price = Num 9007199254740992, ticketTypeId = 3,
              ticket_state = Available, purchaseId = None\<rparr>"

definition ticketE :: ticket_row where
  "ticketE = \<lparr>ticket_id = 5, price = Num 1, ticketTypeId = 3,
              ticket_state = Available, purchaseId = None\<rparr>"

definition ticketF :: ticket_row where
  "ticketF = \<lparr>ticket_id = 6, price = Num (3602879701896397 / 2 ^ 55), ticketTypeId = 1,
              ticket_state = Available, purchaseId = None\<rparr>"

definition ticketG :: ticket_row where
  "ticketG = \<lparr>ticket_id = 7, price = Num (3602879701896397 / 2 ^ 54), ticketTypeId = 1,
              ticket_state = Available, purchaseId = None\<rparr>"

definition kiosk :: db where
  "kiosk = \<lparr>Purchases = [], Tickets = [ticketD, ticketE, ticketF, ticketG]\<rparr>"

definition testEnv :: env where
  "testEnv = \<lparr>WEBCONF_CHECKOUT_URL = Some ''https://checkout.webconf.tech'',
              MP_BACK_URL_SUCCESS = Some ''success'',
              MP_BACK_URL_PENDING = Some ''pending'',
              MP_BACK_URL_FAILURE = Some ''failure'',
              USE_FAKE_PAYMENTS = None,
              MP_TICKET_PICTURE_URL = None,
              MP_EXCLUDED_PAYMENT_TYPES = Some ''ticket,atm''\<rparr>"

definition fakePayments :: env where
  "fakePayments = testEnv\<lparr>USE_FAKE_PAYMENTS := Some ''true''\<rparr>"

definition epoch :: clock where
  "epoch = \<lparr>now_tomorrow = 0, now_from = 0, now_created = 0\<rparr>"

definition march2019 :: clock where
  "march2019 = \<lparr>now_tomorrow = 1551398400000, now_from = 1551398400000,
                now_created = 1551398400000\<rparr>"

definition accepting :: gateway where
  "accepting request = Inr \<lparr>pref_id = ''pref-3''\<rparr>"

definition failing :: gateway where
  "failing request = Inl ''ECONNRESET''"

definition order1 :: purchase_row where
  "order1 = \<lparr>row_id = 1,
     columns = \<lparr>dateCreated = ''2019-03-01T12:00:00.000Z'', status = Unpaid,
                amountBilled = Num 200, externalId = ''pref-1''\<rparr>\<rparr>"

definition order2 :: purchase_row where
  "order2 = \<lparr>row_id = 2,
     columns = \<lparr>dateCreated = ''2019-03-02T09:30:00.000Z'', status = Paid,
                amountBilled = Num 100, externalId = ''pref-2''\<rparr>\<rparr>"

definition shop :: db where
  "shop = \<lparr>Purchases = [order1, order2], Tickets = [ticketA, ticketB, ticketC]\<rparr>"

lemmas sample_defs = shop_def order1_def order2_def ticketA_def ticketB_def ticketC_def
  kiosk_def ticketD_def ticketE_def ticketF_def ticketG_def
  testEnv_def fakePayments_def epoch_def march2019_def accepting_def failing_def

section \<open>Adding numbers\<close>

lemma ilog2_bounds: "0 < n \<Longrightarrow> 2 ^ ilog2 n \<le> n \<and> n < 2 ^ Suc (ilog2 n)"
proof (induction n rule: ilog2.induct)
  case (1 n)
  show ?case
  proof (cases "n < 2")
    case True
    with "1.prems" show ?thesis by (simp add: ilog2.simps [of n])
  next
    case False
    then have "0 < n div 2" by simp
    with "1.IH" False have "2 ^ ilog2 (n div 2) \<le> n div 2 \<and> n div 2 < 2 ^ Suc (ilog2 (n div 2))"
      by simp
    with False show ?thesis
      by (simp add: ilog2.simps [of n]) linarith
  qed
qed

lemma roundEven_of_int [simp]: "roundEven (of_int m) = m"
  by (simp add: roundEven_def)

lemma pow2_nonpos: "k \<le> 0 \<Longrightarrow> pow2 k = 1 / 2 ^ nat (- k)"
  by (cases "k = 0") (simp_all add: pow2_def)

lemma round64_pos_int:
  assumes "0 < n" and "n \<le> 2 ^ 53"
  shows "round64 (of_int n) = Num (of_int n)"
proof -
  let ?e = "ilog2 (nat n)"
  have b: "2 ^ ?e \<le> nat n" "nat n < 2 ^ Suc ?e"
    using ilog2_bounds [of "nat n"] assms(1) by simp_all
  have n53: "nat n \<le> 2 ^ 53"
    using assms by (simp add: nat_le_iff)
  have e53: "?e \<le> 53"
  proof (rule power_le_imp_le_exp [of "2::nat"])
    show "1 < (2::nat)" by simp
    show "(2::nat) ^ ?e \<le> 2 ^ 53" using b(1) n53 by linarith
  qed
  have abs_n: "\<bar>of_int n :: real\<bar> = of_int n"
    using assms(1) by simp
  have x: "expo (of_int n) = int ?e"
    using assms(1) by (simp add: expo_def)
  have small: "(of_int n :: real) < 2 ^ 1024"
  proof -
    have "(of_int n :: real) \<le> of_int (2 ^ 53)"
      using assms(2) by (simp only: of_int_le_iff)
    then show ?thesis by simp
  qed
  show ?thesis
  proof (cases "?e = 53")
    case True
    with b(1) n53 have "nat n = 2 ^ 53" by simp
    with assms(1) have n: "n = 9007199254740992" by simp
    have "ilog2 9007199254740992 = 53"
      by (simp add: ilog2.simps)
    then show ?thesis
      unfolding n by (simp add: round64_def expo_def pow2_def roundEven_def Let_def)
  next
    case False
    with e53 have le: "?e \<le> 52" by simp
    define j where "j = 52 - ?e"
    have k: "max (int ?e - 52) (- 1074) = - int j"
      using le by (simp add: j_def)
    have p: "pow2 (- int j) = 1 / 2 ^ j"
      by (simp add: pow2_nonpos)
    have s: "(of_int n :: real) / pow2 (- int j) = of_int (n * 2 ^ j)"
      by (simp add: p)
    have r: "of_int (roundEven ((of_int n :: real) / pow2 (- int j))) * pow2 (- int j) = of_int n"
      by (simp only: s roundEven_of_int) (simp add: p)
    from assms(1) small show ?thesis
      by (simp add: round64_def Let_def abs_n x k r)
  qed
qed

lemma round64_minus: "round64 x = Num r \<Longrightarrow> round64 (- x) = Num (- r)"
  by (cases "x = 0"; cases "0 < x") (auto simp: round64_def Let_def split: if_splits)

lemma round64_int: "\<bar>n\<bar> \<le> 2 ^ 53 \<Longrightarrow> round64 (of_int n) = Num (of_int n)"
proof -
  assume a: "\<bar>n\<bar> \<le> 2 ^ 53"
  consider "n = 0" | "0 < n" | "n < 0" by linarith
  then show ?thesis
  proof cases
    case 1
    then show ?thesis by (simp add: round64_def)
  next
    case 2
    with a show ?thesis by (simp add: round64_pos_int)
  next
    case 3
    with a have p: "0 < - n" "- n \<le> 2 ^ 53" by simp_all
    from round64_minus [OF round64_pos_int [OF p]] show ?thesis
      by simp
  qed
qed

lemma fadd_int:
  "\<bar>a + b\<bar> \<le> 2 ^ 53 \<Longrightarrow> fadd (Num (of_int a)) (Num (of_int b)) = Num (of_int (a + b))"
  using round64_int [of "a + b"] by simp

lemma wholeNumber_int: "wholeNumber v \<Longrightarrow> \<exists>n. v = Num (of_int n)"
  by (cases v) (auto simp: wholeNumber_def)

lemma total_whole:
  fixes a :: int
  assumes "\<forall>v \<in> set vs. wholeNumber v"
    and "\<bar>of_int a\<bar> + (\<Sum>v\<leftarrow>vs. \<bar>valueOf v\<bar>) \<le> 2 ^ 53"
  shows "foldl fadd (Num (of_int a)) vs = Num (of_int a + (\<Sum>v\<leftarrow>vs. valueOf v))"
  using assms
proof (induction vs arbitrary: a)
  case Nil
  then show ?case by simp
next
  case (Cons v vs)
  then obtain n where v: "v = Num (of_int n)"
    using wholeNumber_int [of v] by auto
  have nonneg: "0 \<le> (\<Sum>v\<leftarrow>vs. \<bar>valueOf v\<bar>)"
    by (rule sum_list_nonneg) auto
  from Cons.prems(2) have bound: "\<bar>of_int a :: real\<bar> + \<bar>of_int n\<bar> + (\<Sum>v\<leftarrow>vs. \<bar>valueOf v\<bar>) \<le> 2 ^ 53"
    by (simp add: v valueOf_def)
  have "\<bar>of_int (a + n) :: real\<bar> \<le> \<bar>of_int a\<bar> + \<bar>of_int n\<bar>"
    by simp
  with bound nonneg have le: "\<bar>of_int (a + n) :: real\<bar> \<le> 2 ^ 53"
      and rest: "\<bar>of_int (a + n) :: real\<bar> + (\<Sum>v\<leftarrow>vs. \<bar>valueOf v\<bar>) \<le> 2 ^ 53"
    by linarith+
  from le have "(of_int \<bar>a + n\<bar> :: real) \<le> of_int (2 ^ 53)"
    by simp
  then have "\<bar>a + n\<bar> \<le> 2 ^ 53"
    by (simp only: of_int_le_iff)
  then have step: "fadd (Num (of_int a)) v = Num (of_int (a + n))"
    unfolding v by (rule fadd_int)
  from Cons.prems(1) have "\<forall>v \<in> set vs. wholeNumber v"
    by simp
  from Cons.IH [OF this rest] step show ?case
    by (simp add: v valueOf_def)
qed

section \<open>Unknown ids\<close>

lemma markAsPaid_absent_rows:
  "i \<notin> row_id ` set rs \<Longrightarrow> map (\<lambda>r. if row_id r = i then pay r else r) rs = rs"
  by (induction rs) auto

text \<open>
  C10. For an id that is the id of no stored order, \<open>markAsPaid\<close> returns normally
  and the tables afterwards are the tables before.
\<close>

theorem markAsPaid_unknown_id_noop:
  "i \<notin> row_id ` set (Purchases s) \<Longrightarrow> markAsPaid i s = (Inr (), s)"
  by (simp add: markAsPaid_def markAsPaid_absent_rows)

theorem markAsPaid_unknown_id_noop_witness:
  "(7::nat) \<notin> row_id ` set (Purchases shop) \<and> markAsPaid 7 shop = (Inr (), shop)"
proof -
  have h: "(7::nat) \<notin> row_id ` set (Purchases shop)"
    by (simp add: shop_def order1_def order2_def)
  from markAsPaid_unknown_id_noop [OF h] h show ?thesis by simp
qed

section \<open>The status of an order\<close>


lemma find_row_filter:
  "find (\<lambda>r. row_id r = i) (filter (\<lambda>r. row_id r \<noteq> j) rs) =
     (if i = j then None else find (\<lambda>r. row_id r = i) rs)"
  by (induction rs) auto

lemma row_id_pay [simp]: "row_id (pay r) = row_id r"
  by (simp add: pay_def)

lemma status_pay [simp]: "status (columns (pay r)) = Paid"
  by (simp add: pay_def)

lemma pay_pay [simp]: "pay (pay r) = pay r"
  by (simp add: pay_def)

lemma find_row_paid:
  "find (\<lambda>r. row_id r = i) (map (\<lambda>r. if row_id r = j then pay r else r) rs) =
     map_option (\<lambda>r. if row_id r = j then pay r else r) (find (\<lambda>r. row_id r = i) rs)"
  by (induction rs) auto

lemma find_row_append:
  "find P xs = Some x \<Longrightarrow> find P (xs @ ys) = Some x"
  by (induction xs) (auto split: if_splits)

lemma find_row_present:
  "i \<in> row_id ` set rs \<Longrightarrow> \<exists>r \<in> set rs. row_id r = i \<and> find (\<lambda>r. row_id r = i) rs = Some r"
  by (induction rs) auto

lemma Purchases_add:
  "\<exists>rs. Purchases (snd (add gw e clk ids s)) = Purchases s @ rs"
  by (simp add: add_def Let_def super_add_def bindTicketsToPurchase_def
      split: sum.splits prod.splits)

lemma statusOf_removeById:
  "statusOf (snd (removeById j s)) i = (if i = j then None else statusOf s i)"
  by (simp add: statusOf_def removeById_def find_row_filter)

lemma statusOf_markAsPaid:
  "statusOf (snd (markAsPaid j s)) i =
     (if i = j then map_option (\<lambda>_. Paid) (statusOf s i) else statusOf s i)"
  by (cases "find (\<lambda>r. row_id r = i) (Purchases s)")
     (auto simp: statusOf_def markAsPaid_def find_row_paid dest: find_Some_iff[THEN iffD1])

lemma statusOf_add:
  "statusOf s i = Some st \<Longrightarrow> statusOf (snd (add gw e clk ids s)) i = Some st"
proof -
  assume a: "statusOf s i = Some st"
  obtain rs where rs: "Purchases (snd (add gw e clk ids s)) = Purchases s @ rs"
    using Purchases_add by blast
  from a obtain r where r: "find (\<lambda>r. row_id r = i) (Purchases s) = Some r"
    by (auto simp: statusOf_def)
  with a rs show ?thesis
    by (simp add: statusOf_def find_row_append)
qed

lemma paid_stays_paid:
  "statusOf s i = Some Paid \<Longrightarrow> statusOf (after gw e clk op s) i \<noteq> Some Unpaid"
proof (cases op)
  case (Add ids)
  assume "statusOf s i = Some Paid"
  then show ?thesis using Add by (simp add: statusOf_add)
next
  case (RemoveById j)
  assume "statusOf s i = Some Paid"
  then show ?thesis using RemoveById by (simp add: statusOf_removeById)
next
  case (GetById j)
  assume "statusOf s i = Some Paid"
  then show ?thesis using GetById by (simp add: getById_def)
next
  case (MarkAsPaid j)
  assume "statusOf s i = Some Paid"
  then show ?thesis using MarkAsPaid by (simp add: statusOf_markAsPaid)
next
  case Delete
  assume "statusOf s i = Some Paid"
  then show ?thesis using Delete by (simp add: delete_def)
qed

lemma markAsPaid_twice:
  "markAsPaid i (snd (markAsPaid i s)) = (Inr (), snd (markAsPaid i s))"
  by (simp add: markAsPaid_def comp_def cong: if_cong)

lemma statusOf_present:
  "i \<in> row_id ` set (Purchases s) \<Longrightarrow> \<exists>st. statusOf s i = Some st"
  using find_row_present [of i "Purchases s"] by (auto simp: statusOf_def)

text \<open>
  C5. \<open>markAsPaid\<close> returns normally for every id; an order that exists has status
  \<open>Paid\<close> afterwards; a second call on the same id returns normally and changes
  nothing, so the status is still \<open>Paid\<close>; and no operation of the processor
  takes an order whose status is \<open>Paid\<close> to the status \<open>Unpaid\<close>.
\<close>

theorem markAsPaid_idempotent_monotonic:
  "fst (markAsPaid i s) = Inr ()
   \<and> (i \<in> row_id ` set (Purchases s) \<longrightarrow> statusOf (snd (markAsPaid i s)) i = Some Paid)
   \<and> markAsPaid i (snd (markAsPaid i s)) = (Inr (), snd (markAsPaid i s))
   \<and> (statusOf s j = Some Paid \<longrightarrow> statusOf (after gw e clk op s) j \<noteq> Some Unpaid)"
proof -
  have a: "fst (markAsPaid i s) = Inr ()"
    by (simp add: markAsPaid_def)
  have b: "i \<in> row_id ` set (Purchases s) \<longrightarrow> statusOf (snd (markAsPaid i s)) i = Some Paid"
    using statusOf_present [of i s] by (auto simp: statusOf_markAsPaid)
  from a b markAsPaid_twice paid_stays_paid show ?thesis
    by blast
qed

theorem markAsPaid_idempotent_monotonic_witness:
  "fst (markAsPaid 1 shop) = Inr ()
   \<and> 1 \<in> row_id ` set (Purchases shop)
   \<and> statusOf shop 1 = Some Unpaid
   \<and> statusOf (snd (markAsPaid 1 shop)) 1 = Some Paid
   \<and> markAsPaid 1 (snd (markAsPaid 1 shop)) = (Inr (), snd (markAsPaid 1 shop))
   \<and> statusOf shop 2 = Some Paid
   \<and> statusOf (after accepting testEnv epoch (Add [1, 2]) shop) 2 \<noteq> Some Unpaid"
proof -
  have h1: "1 \<in> row_id ` set (Purchases shop)"
    by (simp add: sample_defs)
  have h2: "statusOf shop 2 = Some Paid"
    by (simp add: statusOf_def sample_defs)
  have h3: "statusOf shop 1 = Some Unpaid"
    by (simp add: statusOf_def sample_defs)
  from markAsPaid_idempotent_monotonic [of 1 shop 2 accepting testEnv epoch "Add [1, 2]"] h1 h2 h3
  show ?thesis by simp
qed

section \<open>Deleting\<close>

lemma row_ids_paid:
  "map row_id (map (\<lambda>r. if row_id r = i then pay r else r) rs) = map row_id rs"
  by (induction rs) auto

text \<open>
  The claim C6 as it is written fails: \<open>removeById\<close> is an operation of the
  processor, and it deletes a stored order.
\<close>

theorem delete_counterexample:
  "order1 \<in> set (Purchases shop)
   \<and> order1 \<notin> set (Purchases (after accepting testEnv epoch (RemoveById 1) shop))"
  by (simp add: removeById_def sample_defs)

text \<open>
  C6, amended. \<open>delete\<close> fails with \<open>AccessDenied\<close> in every state and removes
  nothing; fetching, paying and creating keep every stored order; the one operation
  that deletes order rows is \<open>removeById\<close>, which deletes exactly the rows with the
  id it is given.
\<close>

theorem delete_denied_removeById_removes:
  "delete s = (Inl AccessDenied, s)
   \<and> Purchases (after gw e clk Delete s) = Purchases s
   \<and> Purchases (after gw e clk (GetById i) s) = Purchases s
   \<and> map row_id (Purchases (after gw e clk (MarkAsPaid i) s)) = map row_id (Purchases s)
   \<and> take (length (Purchases s)) (Purchases (after gw e clk (Add ids) s)) = Purchases s
   \<and> set (Purchases (after gw e clk (RemoveById i) s))
       = set (Purchases s) - {r. row_id r = i}"
proof -
  obtain rs where "Purchases (snd (add gw e clk ids s)) = Purchases s @ rs"
    using Purchases_add by blast
  then have "take (length (Purchases s)) (Purchases (after gw e clk (Add ids) s)) = Purchases s"
    by simp
  moreover have "set (Purchases (after gw e clk (RemoveById i) s))
       = set (Purchases s) - {r. row_id r = i}"
    by (auto simp: removeById_def)
  ultimately show ?thesis
    by (simp add: delete_def getById_def markAsPaid_def row_ids_paid)
qed

theorem delete_denied_removeById_removes_witness:
  "delete shop = (Inl AccessDenied, shop)
   \<and> Purchases (after accepting testEnv epoch Delete shop) = [order1, order2]
   \<and> set (Purchases (after accepting testEnv epoch (RemoveById 1) shop)) = {order2}"
proof -
  have "{r. row_id r = 1} \<inter> {order1, order2} = {order1}"
    by (auto simp: order1_def order2_def)
  then have "{order1, order2} - {r. row_id r = 1} = {order2}"
    by (auto simp: order1_def order2_def)
  with delete_denied_removeById_removes [of shop accepting testEnv epoch 1 "[]"]
  show ?thesis by (simp add: shop_def)
qed

section \<open>Fetching\<close>

text \<open>
  C9 does not hold of the code. For an id of no stored order the read of
  \<open>purchaseObject.id\<close> in \<open>asResource\<close> throws a \<open>TypeError\<close>: \<open>getById\<close> does
  not end with \<open>NotFound\<close>. The tables are left as they were.
\<close>

theorem getById_unknown_id_TypeError:
  "7 \<notin> row_id ` set (Purchases shop) \<and> getById 7 shop = (Inl TypeError, shop)"
  by (simp add: getById_def asResource_def sample_defs)

section \<open>Gateway failure\<close>

text \<open>
  C7. When the gateway rejects the preference built for the request, \<open>add\<close> ends
  with the gateway's error and both tables are as they were: no order row is
  inserted and no ticket is changed.
\<close>

theorem add_gateway_failure_clean:
  "gw (preferenceConfiguration e clk (tickets (getTickets ids s))
         (quantitiesByType (getTickets ids s))) = Inl reason
   \<Longrightarrow> add gw e clk ids s = (Inl (GatewayError reason), s)"
  by (simp add: add_def postPreference_def Let_def)

theorem add_gateway_failure_clean_witness:
  "failing (preferenceConfiguration testEnv epoch (tickets (getTickets [1, 2] shop))
         (quantitiesByType (getTickets [1, 2] shop))) = Inl ''ECONNRESET''
   \<and> add failing testEnv epoch [1, 2] shop = (Inl (GatewayError ''ECONNRESET''), shop)"
proof -
  have h: "failing (preferenceConfiguration testEnv epoch (tickets (getTickets [1, 2] shop))
         (quantitiesByType (getTickets [1, 2] shop))) = Inl ''ECONNRESET''"
    by (simp add: failing_def)
  from add_gateway_failure_clean [of failing testEnv epoch "[1, 2]" shop "''ECONNRESET''"] h
  show ?thesis by simp
qed

section \<open>Requests that name unknown or booked tickets\<close>

lemmas add_defs = add_def getTickets_def postPreference_def super_add_def
  bindTicketsToPurchase_def nextId_def book_def totalOf_def Let_def

text \<open>
  The claim C1 as it is written fails. A request for the booked ticket 3 does not end
  with \<open>Conflict\<close>: an order is inserted and the ticket is bound to it. A request
  for the unknown ticket 99 does not end with \<open>NotFound\<close>: an order is inserted.
\<close>

theorem add_unchecked_counterexample:
  "ticketC \<in> set (Tickets shop) \<and> ticket_state ticketC = Booked
   \<and> fst (add accepting testEnv epoch [3] shop) \<noteq> Inl Conflict
   \<and> length (Purchases (snd (add accepting testEnv epoch [3] shop))) = 3
   \<and> purchaseId (Tickets (snd (add accepting testEnv epoch [3] shop)) ! 2) = Some 3
   \<and> 99 \<notin> ticket_id ` set (Tickets shop)
   \<and> fst (add accepting testEnv epoch [99] shop) \<noteq> Inl NotFound
   \<and> length (Purchases (snd (add accepting testEnv epoch [99] shop))) = 3"
  by (simp add: add_defs sample_defs)

lemma getTickets_resolved:
  "getTickets (filter (\<lambda>i. i \<in> ticket_id ` set (Tickets s)) ids) s = getTickets ids s"
proof -
  have "filter (\<lambda>t. ticket_id t \<in> set (filter (\<lambda>i. i \<in> ticket_id ` set (Tickets s)) ids)) (Tickets s)
        = filter (\<lambda>t. ticket_id t \<in> set ids) (Tickets s)"
    by (rule filter_cong) auto
  then show ?thesis
    by (simp add: getTickets_def)
qed

lemma add_error_cases:
  "fst (add gw e clk ids s) = Inl err \<Longrightarrow> \<exists>reason. err = GatewayError reason"
  by (auto simp: add_def postPreference_def Let_def split: sum.splits prod.splits)

lemma lineItem_state: "lineItem e q (t\<lparr>ticket_state := st\<rparr>) = lineItem e q t"
  by (simp add: lineItem_def)

lemma getTickets_restate:
  "tickets (getTickets ids (restate f s))
     = map (\<lambda>t. t\<lparr>ticket_state := f t\<rparr>) (tickets (getTickets ids s))"
  "totalPrice (getTickets ids (restate f s)) = totalPrice (getTickets ids s)"
  "quantitiesByType (getTickets ids (restate f s)) = quantitiesByType (getTickets ids s)"
  by (simp_all add: getTickets_def restate_def Let_def filter_map comp_def totalOf_def
      quantitiesOf_def)

lemma preferenceConfiguration_state:
  "preferenceConfiguration e clk (map (\<lambda>t. t\<lparr>ticket_state := f t\<rparr>) ts) q
     = preferenceConfiguration e clk ts q"
  by (simp add: preferenceConfiguration_def comp_def lineItem_state)

lemma add_restate: "fst (add gw e clk ids (restate f s)) = fst (add gw e clk ids s)"
proof -
  have "Purchases (restate f s) = Purchases s"
    by (simp add: restate_def)
  then show ?thesis
    by (simp add: add_def postPreference_def Let_def getTickets_restate
        preferenceConfiguration_state super_add_def split: sum.splits)
qed

text \<open>
  C1, amended. \<open>add\<close> looks at neither the existence nor the status of the
  requested tickets: identifiers that resolve to no ticket are ignored, every stored
  ticket whose id is requested is selected whatever its status, the result of
  \<open>add\<close> is the same whatever the statuses of the tickets are, and \<open>add\<close> ends
  with neither \<open>NotFound\<close> nor \<open>Conflict\<close>.
\<close>

theorem add_ignores_unknown_and_booked:
  "add gw e clk (filter (\<lambda>i. i \<in> ticket_id ` set (Tickets s)) ids) s = add gw e clk ids s
   \<and> set (tickets (getTickets ids s)) = {t \<in> set (Tickets s). ticket_id t \<in> set ids}
   \<and> fst (add gw e clk ids (restate f s)) = fst (add gw e clk ids s)
   \<and> fst (add gw e clk ids s) \<noteq> Inl NotFound
   \<and> fst (add gw e clk ids s) \<noteq> Inl Conflict"
proof -
  have a: "add gw e clk (filter (\<lambda>i. i \<in> ticket_id ` set (Tickets s)) ids) s = add gw e clk ids s"
    by (simp add: add_def getTickets_resolved)
  have b: "set (tickets (getTickets ids s)) = {t \<in> set (Tickets s). ticket_id t \<in> set ids}"
    by (auto simp: getTickets_def Let_def)
  have c: "fst (add gw e clk ids s) \<noteq> Inl NotFound" "fst (add gw e clk ids s) \<noteq> Inl Conflict"
    using add_error_cases [of gw e clk ids s] by auto
  from a b c add_restate show ?thesis by blast
qed

theorem add_ignores_unknown_and_booked_witness:
  "add accepting testEnv epoch (filter (\<lambda>i. i \<in> ticket_id ` set (Tickets shop)) [3, 99]) shop
     = add accepting testEnv epoch [3, 99] shop
   \<and> fst (add accepting testEnv epoch [3, 99] (restate (\<lambda>t. Available) shop))
     = fst (add accepting testEnv epoch [3, 99] shop)
   \<and> fst (add accepting testEnv epoch [3, 99] shop) \<noteq> Inl NotFound
   \<and> fst (add accepting testEnv epoch [3, 99] shop) \<noteq> Inl Conflict"
  using add_ignores_unknown_and_booked [of accepting testEnv epoch shop "[3, 99]" "\<lambda>t. Available"]
  by simp

section \<open>Quantities\<close>

text \<open>
  C3 does not hold of the code. Each step of the \<open>reduce\<close> returns an object with
  the current category as its only key, so the counts of the other categories are
  lost: for a ticket of category 1 followed by one of category 2 the map is
  \<open>{2: 1}\<close>, which has no entry for category 1 and whose values sum to 1, not 2.
\<close>

theorem getTickets_quantities_overwritten:
  "map ticketTypeId (tickets (getTickets [1, 3] shop)) = [1, 2]
   \<and> quantitiesByType (getTickets [1, 3] shop) = [2 \<mapsto> 1]"
  by (simp add: getTickets_def quantitiesOf_def countStep_def Let_def sample_defs)

section \<open>Expiration\<close>

lemma pad_zeros: "replicate (numeral k) CHR ''0'' = CHR ''0'' # replicate (numeral k - 1) CHR ''0''"
  by (simp add: numeral_eq_Suc)

lemma civil_march: "civil 17956 = (2019, 3, 1)"
  unfolding civil_def Let_def by simp

lemma civil_april: "civil 18016 = (2019, 4, 30)"
  unfolding civil_def Let_def by simp

lemma pad_examples:
  "pad 4 2019 = ''2019''" "pad 2 3 = ''03''" "pad 2 4 = ''04''" "pad 2 (Suc 0) = ''01''"
  "pad 2 30 = ''30''" "pad 2 0 = ''00''" "pad 3 0 = ''000''"
  by (simp_all add: pad_def showNat.simps pad_zeros)

lemma toJSON_march: "toJSON 1551398400000 = ''2019-03-01T00:00:00.000Z''"
  by (simp add: toJSON_def civil_march pad_examples)

lemma toJSON_april: "toJSON 1556582400000 = ''2019-04-30T00:00:00.000Z''"
  by (simp add: toJSON_def civil_april pad_examples)

text \<open>
  C8 does not hold of the code. The end of the window is the clock plus
  \<open>60 * 60 * 60 * 24 * 1000\<close> milliseconds, which is sixty days and not 24 hours:
  a preference built on 1 March 2019 expires on 30 April 2019. Both timestamps are
  the first 23 characters of \<open>toJSON\<close> followed by \<open>-03:00\<close>.
\<close>

theorem expiration_sixty_days:
  "TOMORROW t = t + 60 * (24 * 60 * 60 * 1000)
   \<and> expiration_date_from (preferenceConfiguration testEnv march2019 [] Map.empty)
       = ''2019-03-01T00:00:00.000-03:00''
   \<and> expiration_date_to (preferenceConfiguration testEnv march2019 [] Map.empty)
       = ''2019-04-30T00:00:00.000-03:00''"
  by (simp add: TOMORROW_def preferenceConfiguration_def march2019_def toJSON_march toJSON_april)

section \<open>Line items\<close>






section \<open>The billed amount\<close>

lemma round64_examples:
  "round64 9007199254740992 = Num 9007199254740992"
  "round64 9007199254740993 = Num 9007199254740992"
  "round64 (3602879701896397 / 36028797018963968) = Num (3602879701896397 / 36028797018963968)"
  "round64 (10808639105689191 / 36028797018963968) = Num (1351079888211149 / 4503599627370496)"
  by (simp_all add: round64_def expo_def pow2_def roundEven_def Let_def ilog2.simps)

lemma kiosk_totals:
  "totalPrice (getTickets [4, 5] kiosk) = Num 9007199254740992"
  "totalPrice (getTickets [6, 7] kiosk) = Num (1351079888211149 / 4503599627370496)"
  by (simp_all add: getTickets_def Let_def totalOf_def kiosk_def ticketD_def ticketE_def
      ticketF_def ticketG_def round64_examples)

text \<open>
  The claim C2 as it is written fails. The total is added in binary64 arithmetic, so
  it is not always the exact sum of the prices: two available tickets priced
  \<open>9007199254740992\<close> and \<open>1\<close> are billed \<open>9007199254740992\<close>, and the sum billed
  for the binary64 values of \<open>0.1\<close> and \<open>0.2\<close> is not their sum.
\<close>

theorem add_rounded_sum_counterexample:
  "fst (add accepting testEnv march2019 [4, 5] kiosk)
     = Inr \<lparr>res_id = 1, res_type = ''purchase'',
            attributes = \<lparr>dateCreated = ''2019-03-01T00:00:00.000Z'', status = Unpaid,
                          amountBilled = Num 9007199254740992, externalId = ''pref-3''\<rparr>,
            relationships = []\<rparr>
   \<and> valueOf (priceOf kiosk 4) + valueOf (priceOf kiosk 5) = 9007199254740993
   \<and> fst (add accepting testEnv march2019 [6, 7] kiosk)
     = Inr \<lparr>res_id = 1, res_type = ''purchase'',
            attributes = \<lparr>dateCreated = ''2019-03-01T00:00:00.000Z'', status = Unpaid,
                          amountBilled = Num (1351079888211149 / 4503599627370496),
                          externalId = ''pref-3''\<rparr>,
            relationships = []\<rparr>
   \<and> valueOf (priceOf kiosk 6) + valueOf (priceOf kiosk 7)
       = 10808639105689191 / 36028797018963968
   \<and> (10808639105689191 / 36028797018963968 :: real) \<noteq> 1351079888211149 / 4503599627370496"
proof -
  have p: "valueOf (priceOf kiosk 4) + valueOf (priceOf kiosk 5) = 9007199254740993"
      "valueOf (priceOf kiosk 6) + valueOf (priceOf kiosk 7)
         = 10808639105689191 / 36028797018963968"
    by (simp_all add: priceOf_def valueOf_def kiosk_def ticketD_def ticketE_def ticketF_def
        ticketG_def)
  have a: "fst (add accepting testEnv march2019 [4, 5] kiosk)
     = Inr \<lparr>res_id = 1, res_type = ''purchase'',
            attributes = \<lparr>dateCreated = ''2019-03-01T00:00:00.000Z'', status = Unpaid,
                          amountBilled = Num 9007199254740992, externalId = ''pref-3''\<rparr>,
            relationships = []\<rparr>"
    by (simp add: add_def postPreference_def super_add_def nextId_def Let_def
        accepting_def march2019_def kiosk_totals toJSON_march)
       (simp add: kiosk_def)
  have b: "fst (add accepting testEnv march2019 [6, 7] kiosk)
     = Inr \<lparr>res_id = 1, res_type = ''purchase'',
            attributes = \<lparr>dateCreated = ''2019-03-01T00:00:00.000Z'', status = Unpaid,
                          amountBilled = Num (1351079888211149 / 4503599627370496),
                          externalId = ''pref-3''\<rparr>,
            relationships = []\<rparr>"
    by (simp add: add_def postPreference_def super_add_def nextId_def Let_def
        accepting_def march2019_def kiosk_totals toJSON_march)
       (simp add: kiosk_def)
  from p a b show ?thesis by simp
qed

lemma find_ticket_distinct:
  "distinct (map ticket_id ts) \<Longrightarrow> t \<in> set ts \<Longrightarrow>
   find (\<lambda>x. ticket_id x = ticket_id t) ts = Some t"
  by (induction ts) (auto simp: image_iff)

lemma priceOf_stored:
  "distinct (map ticket_id (Tickets s)) \<Longrightarrow> t \<in> set (Tickets s) \<Longrightarrow>
   priceOf s (ticket_id t) = price t"
  by (simp add: priceOf_def find_ticket_distinct)

lemma selected_ids:
  assumes "distinct (map ticket_id ts)" and "set ids \<subseteq> ticket_id ` set ts"
  shows "distinct (map ticket_id (filter (\<lambda>t. ticket_id t \<in> set ids) ts))"
    and "set (map ticket_id (filter (\<lambda>t. ticket_id t \<in> set ids) ts)) = set ids"
  using assms by (auto simp: distinct_map_filter)

lemma selected_sum:
  fixes f :: "nat \<Rightarrow> real"
  assumes "distinct ids" and "distinct (map ticket_id ts)" and "set ids \<subseteq> ticket_id ` set ts"
  shows "sum_list (map f (map ticket_id (filter (\<lambda>t. ticket_id t \<in> set ids) ts)))
           = sum_list (map f ids)"
proof -
  let ?sel = "map ticket_id (filter (\<lambda>t. ticket_id t \<in> set ids) ts)"
  have "sum_list (map f ?sel) = sum f (set ?sel)"
    using selected_ids(1) [OF assms(2,3)] by (rule sum_list_distinct_conv_sum_set)
  also have "\<dots> = sum f (set ids)"
    using selected_ids(2) [OF assms(2,3)] by simp
  also have "\<dots> = sum_list (map f ids)"
    using assms(1) by (simp add: sum_list_distinct_conv_sum_set)
  finally show ?thesis .
qed

lemma selected_prices:
  "distinct (map ticket_id (Tickets s)) \<Longrightarrow>
   map price (tickets (getTickets ids s))
     = map (priceOf s) (map ticket_id (tickets (getTickets ids s)))"
  by (simp add: getTickets_def Let_def priceOf_stored)

lemma totalPrice_fold:
  "totalPrice (getTickets ids s) = foldl fadd (Num 0) (map price (tickets (getTickets ids s)))"
  by (simp add: getTickets_def Let_def totalOf_def)

lemma selected_total_exact:
  assumes d: "distinct ids" and k: "distinct (map ticket_id (Tickets s))"
    and r: "set ids \<subseteq> ticket_id ` set (Tickets s)"
    and w: "\<forall>i \<in> set ids. wholeNumber (priceOf s i)"
    and m: "(\<Sum>i\<leftarrow>ids. \<bar>valueOf (priceOf s i)\<bar>) \<le> 2 ^ 53"
  shows "totalPrice (getTickets ids s) = Num (\<Sum>i\<leftarrow>ids. valueOf (priceOf s i))"
proof -
  let ?sel = "map ticket_id (tickets (getTickets ids s))"
  have sel: "?sel = map ticket_id (filter (\<lambda>t. ticket_id t \<in> set ids) (Tickets s))"
    by (simp add: getTickets_def Let_def)
  have ps: "map price (tickets (getTickets ids s)) = map (priceOf s) ?sel"
    using k by (rule selected_prices)
  have whole: "\<forall>v \<in> set (map (priceOf s) ?sel). wholeNumber v"
    using w by (auto simp: getTickets_def Let_def)
  have "(\<Sum>v\<leftarrow>map (priceOf s) ?sel. \<bar>valueOf v\<bar>)
          = sum_list (map (\<lambda>i. \<bar>valueOf (priceOf s i)\<bar>) ?sel)"
    by (simp add: comp_def)
  also have "\<dots> = (\<Sum>i\<leftarrow>ids. \<bar>valueOf (priceOf s i)\<bar>)"
    unfolding sel using d k r by (rule selected_sum)
  finally have bound: "\<bar>of_int 0 :: real\<bar> + (\<Sum>v\<leftarrow>map (priceOf s) ?sel. \<bar>valueOf v\<bar>) \<le> 2 ^ 53"
    using m by simp
  have "(\<Sum>v\<leftarrow>map (priceOf s) ?sel. valueOf v)
          = sum_list (map (\<lambda>i. valueOf (priceOf s i)) ?sel)"
    by (simp add: comp_def)
  also have "\<dots> = (\<Sum>i\<leftarrow>ids. valueOf (priceOf s i))"
    unfolding sel using d k r by (rule selected_sum)
  finally have "(\<Sum>v\<leftarrow>map (priceOf s) ?sel. valueOf v) = (\<Sum>i\<leftarrow>ids. valueOf (priceOf s i))"
    by this
  with total_whole [OF whole bound] show ?thesis
    by (simp add: totalPrice_fold ps)
qed

text \<open>
  C2, amended. For a non-empty list of ticket ids without duplicates, each the id of a
  stored ticket that is available, in a table whose ids are unique, and a gateway that
  accepts the preference: \<open>add\<close> returns an order, which is the row inserted, whose
  status is \<open>Unpaid\<close> and whose \<open>amountBilled\<close> is the binary64 sum, from 0 and in
  the order of the table, of the prices of exactly the requested tickets. When these
  prices are integers whose magnitudes sum to at most \<open>2\<close> to the \<open>53\<close>, that is
  their exact sum.
\<close>

theorem add_bills_binary64_sum:
  assumes "ids \<noteq> []" and "distinct ids"
    and "distinct (map ticket_id (Tickets s))"
    and "\<forall>i \<in> set ids. \<exists>t \<in> set (Tickets s). ticket_id t = i \<and> ticket_state t = Available"
    and "gw (preferenceConfiguration e clk (tickets (getTickets ids s))
               (quantitiesByType (getTickets ids s))) = Inr response"
  shows "\<exists>p s'. add gw e clk ids s = (Inr p, s')
           \<and> distinct (map ticket_id (tickets (getTickets ids s)))
           \<and> set (map ticket_id (tickets (getTickets ids s))) = set ids
           \<and> amountBilled (attributes p)
               = foldl fadd (Num 0) (map price (tickets (getTickets ids s)))
           \<and> ((\<forall>i \<in> set ids. wholeNumber (priceOf s i))
                \<and> (\<Sum>i\<leftarrow>ids. \<bar>valueOf (priceOf s i)\<bar>) \<le> 2 ^ 53
               \<longrightarrow> amountBilled (attributes p) = Num (\<Sum>i\<leftarrow>ids. valueOf (priceOf s i)))
           \<and> status (attributes p) = Unpaid
           \<and> \<lparr>row_id = res_id p, columns = attributes p\<rparr> \<in> set (Purchases s')"
proof -
  have r: "set ids \<subseteq> ticket_id ` set (Tickets s)"
    using assms(4) by force
  have sel: "map ticket_id (tickets (getTickets ids s))
               = map ticket_id (filter (\<lambda>t. ticket_id t \<in> set ids) (Tickets s))"
    by (simp add: getTickets_def Let_def)
  have perm: "distinct (map ticket_id (tickets (getTickets ids s)))"
      "set (map ticket_id (tickets (getTickets ids s))) = set ids"
    unfolding sel using selected_ids [OF assms(3) r] by simp_all
  have exact: "(\<forall>i \<in> set ids. wholeNumber (priceOf s i))
                \<and> (\<Sum>i\<leftarrow>ids. \<bar>valueOf (priceOf s i)\<bar>) \<le> 2 ^ 53
               \<longrightarrow> totalPrice (getTickets ids s) = Num (\<Sum>i\<leftarrow>ids. valueOf (priceOf s i))"
    using selected_total_exact [OF assms(2,3) r] by blast
  have created: "add gw e clk ids s =
      (Inr \<lparr>res_id = nextId (Purchases s), res_type = ''purchase'',
            attributes = \<lparr>dateCreated = toJSON (now_created clk), status = Unpaid,
                          amountBilled = totalPrice (getTickets ids s),
                          externalId = pref_id response\<rparr>,
            relationships = []\<rparr>,
       snd (add gw e clk ids s))"
    using assms(5) by (simp add: add_def postPreference_def super_add_def Let_def)
  have stored: "\<lparr>row_id = nextId (Purchases s),
            columns = \<lparr>dateCreated = toJSON (now_created clk), status = Unpaid,
                          amountBilled = totalPrice (getTickets ids s),
                          externalId = pref_id response\<rparr>\<rparr> \<in> set (Purchases (snd (add gw e clk ids s)))"
    using assms(5)
    by (simp add: add_def postPreference_def super_add_def bindTicketsToPurchase_def Let_def)
  from created stored perm exact totalPrice_fold [of ids s] show ?thesis
    by (intro exI [of _ "\<lparr>res_id = nextId (Purchases s), res_type = ''purchase'',
            attributes = \<lparr>dateCreated = toJSON (now_created clk), status = Unpaid,
                          amountBilled = totalPrice (getTickets ids s),
                          externalId = pref_id response\<rparr>,
            relationships = []\<rparr>"] exI [of _ "snd (add gw e clk ids s)"]) simp
qed

theorem add_bills_binary64_sum_witness:
  "fst (add accepting testEnv march2019 [1, 2] shop)
     = Inr \<lparr>res_id = 3, res_type = ''purchase'',
            attributes = \<lparr>dateCreated = ''2019-03-01T00:00:00.000Z'', status = Unpaid,
                          amountBilled = Num 200, externalId = ''pref-3''\<rparr>,
            relationships = []\<rparr>
   \<and> wholeNumber (priceOf shop 1) \<and> wholeNumber (priceOf shop 2)
   \<and> (\<Sum>i\<leftarrow>[1, 2]. \<bar>valueOf (priceOf shop i)\<bar>) = 200"
proof -
  have h: "[1, 2] \<noteq> ([]::nat list)" "distinct [1, 2::nat]"
      "distinct (map ticket_id (Tickets shop))"
      "\<forall>i \<in> set [1, 2]. \<exists>t \<in> set (Tickets shop). ticket_id t = i \<and> ticket_state t = Available"
      "accepting (preferenceConfiguration testEnv march2019 (tickets (getTickets [1, 2] shop))
               (quantitiesByType (getTickets [1, 2] shop))) = Inr \<lparr>pref_id = ''pref-3''\<rparr>"
    by (simp_all add: sample_defs)
  have v: "priceOf shop 1 = Num 100" "priceOf shop 2 = Num 100" "priceOf shop (Suc 0) = Num 100"
    by (simp_all add: priceOf_def sample_defs)
  have w: "wholeNumber (priceOf shop 1)" "wholeNumber (priceOf shop 2)"
    by (simp_all add: v wholeNumber_def)
  have m: "(\<Sum>i\<leftarrow>[1, 2]. \<bar>valueOf (priceOf shop i)\<bar>) = 200"
      "(\<Sum>i\<leftarrow>[1, 2]. valueOf (priceOf shop i)) = 200"
    by (simp_all add: v valueOf_def)
  have x: "(\<forall>i \<in> set [1, 2]. wholeNumber (priceOf shop i))
      \<and> (\<Sum>i\<leftarrow>[1, 2]. \<bar>valueOf (priceOf shop i)\<bar>) \<le> 2 ^ 53"
    using w by (simp only: m) simp
  from add_bills_binary64_sum
         [of "[1, 2]" shop accepting testEnv march2019 "\<lparr>pref_id = ''pref-3''\<rparr>", OF h]
  obtain p s' where p: "add accepting testEnv march2019 [1, 2] shop = (Inr p, s')"
      "amountBilled (attributes p) = Num (\<Sum>i\<leftarrow>[1, 2]. valueOf (priceOf shop i))"
    using x by blast
  have c: "\<exists>b. fst (add accepting testEnv march2019 [1, 2] shop)
     = Inr \<lparr>res_id = 3, res_type = ''purchase'',
            attributes = \<lparr>dateCreated = ''2019-03-01T00:00:00.000Z'', status = Unpaid,
                          amountBilled = b, externalId = ''pref-3''\<rparr>,
            relationships = []\<rparr>"
    by (simp add: add_defs sample_defs toJSON_march)
  from p c have "fst (add accepting testEnv march2019 [1, 2] shop)
     = Inr \<lparr>res_id = 3, res_type = ''purchase'',
            attributes = \<lparr>dateCreated = ''2019-03-01T00:00:00.000Z'', status = Unpaid,
                          amountBilled = Num 200, externalId = ''pref-3''\<rparr>,
            relationships = []\<rparr>"
    by (auto simp: v valueOf_def)
  with w m(1) show ?thesis
    by simp
qed

end
